theory Spec2Isabelle
  imports Complex_Main "HOL-Library.Word" "HOL-Library.Sublist" "HOL-Library.Log_Nat"
begin

section \<open>Strings and numbers of the TypeScript front end\<close>

text \<open>
  A JavaScript string is a finite sequence of 16-bit code units. String literals of the
  source are written as HOL strings and converted with \<open>str\<close>.
\<close>

type_synonym jsstring = "16 word list"

definition str :: "string \<Rightarrow> jsstring" where
  "str s = map of_char s"

text \<open>
  \<open>String.prototype.trim\<close> removes the leading and trailing code units that are
  WhiteSpace or LineTerminator in ECMAScript: TAB, LF, VT, FF, CR, SP, NBSP, U+1680,
  U+2000 to U+200A, LS, PS, U+202F, U+205F, U+3000 and the byte order mark U+FEFF.
\<close>

definition isWhiteSpace :: "16 word \<Rightarrow> bool" where
  "isWhiteSpace c \<longleftrightarrow>
     c \<in> {0x0009, 0x000A, 0x000B, 0x000C, 0x000D, 0x0020, 0x00A0, 0x1680,
          0x2028, 0x2029, 0x202F, 0x205F, 0x3000, 0xFEFF}
     \<or> (0x2000 \<le> c \<and> c \<le> 0x200A)"

definition trim :: "jsstring \<Rightarrow> jsstring" where
  "trim s = rev (dropWhile isWhiteSpace (rev (dropWhile isWhiteSpace s)))"

text \<open>
  \<open>String.prototype.includes\<close>: the argument occurs in the receiver as a contiguous
  run of code units.
\<close>

definition includesString :: "jsstring \<Rightarrow> jsstring \<Rightarrow> bool" where
  "includesString s k = sublist k s"

text \<open>
  \<open>String.prototype.toLowerCase\<close> is the Unicode default lower-case conversion, a
  built-in whose tables are not part of the repository. The functions that call it take it
  as the parameter \<open>lower\<close>. \<open>asciiLowerCase\<close> is the conversion on strings of Basic Latin
  code units, where it maps \<open>A\<close> to \<open>Z\<close> onto \<open>a\<close> to \<open>z\<close> and leaves every other code
  unit alone; it is the instance used to run the functions on concrete inputs.
\<close>

definition asciiLowerUnit :: "16 word \<Rightarrow> 16 word" where
  "asciiLowerUnit c = (if 0x41 \<le> c \<and> c \<le> 0x5A then c + 0x20 else c)"

definition asciiLowerCase :: "jsstring \<Rightarrow> jsstring" where
  "asciiLowerCase s = map asciiLowerUnit s"

text \<open>
  The numbers held by the form, by the data of the results page and by JSON documents are
  modelled as NaN or a finite number; an infinity in one of these places is outside the
  model. The arithmetic of the results page is that of IEEE binary64, modelled below with
  its rounding and its infinities. A slot declared \<open>number\<close> may hold \<open>undefined\<close> or
  \<open>null\<close> at run time, which is \<open>None\<close> of \<open>number option\<close>.
\<close>

datatype number = NaN | Num real

section \<open>Index.tsx: the location table and its lookup\<close>

record coords =
  lat :: real
  lon :: real

text \<open>
  The object literal \<open>locationLookup\<close>, as an association list in the order of the
  source. All its keys are distinct and none is an array index, so \<open>for ... in\<close>
  enumerates them in this order.
\<close>

definition locationLookup :: "(jsstring \<times> coords) list" where
  "locationLookup =
    [(str ''pune'', \<lparr>lat = 18.5204, lon = 73.8567\<rparr>),
     (str ''kothrud'', \<lparr>lat = 18.5074, lon = 73.8095\<rparr>),
     (str ''hinjewadi'', \<lparr>lat = 18.5912, lon = 73.7389\<rparr>),
     (str ''viman nagar'', \<lparr>lat = 18.5679, lon = 73.9143\<rparr>),
     (str ''pimpri'', \<lparr>lat = 18.6277, lon = 73.8138\<rparr>),
     (str ''chinchwad'', \<lparr>lat = 18.6277, lon = 73.8138\<rparr>),
     (str ''pimpri-chinchwad'', \<lparr>lat = 18.6277, lon = 73.8138\<rparr>),
     (str ''hadapsar'', \<lparr>lat = 18.5089, lon = 73.9244\<rparr>),
     (str ''aundh'', \<lparr>lat = 18.5529, lon = 73.8091\<rparr>),
     (str ''wakad'', \<lparr>lat = 18.6015, lon = 73.7663\<rparr>),
     (str ''baner'', \<lparr>lat = 18.5590, lon = 73.7798\<rparr>),
     (str ''pune station'', \<lparr>lat = 18.5283, lon = 73.8754\<rparr>),
     (str ''swargate'', \<lparr>lat = 18.5029, lon = 73.8634\<rparr>),
     (str ''kharadi'', \<lparr>lat = 18.5528, lon = 73.9268\<rparr>),
     (str ''katraj'', \<lparr>lat = 18.4520, lon = 73.8604\<rparr>)]"

text \<open>
  \<open>locationLookup\<close> is an ordinary object, so its prototype is \<open>Object.prototype\<close> and a
  property read \<open>locationLookup[k]\<close> that finds no own property continues there. These
  are the property names of \<open>Object.prototype\<close> (ECMAScript with Annex B, as in every
  browser); none of them is enumerable, so \<open>for ... in\<close> does not visit them.
\<close>

definition objectPrototypeKeys :: "jsstring list" where
  "objectPrototypeKeys =
    [str ''constructor'', str ''__proto__'', str ''hasOwnProperty'',
     str ''isPrototypeOf'', str ''propertyIsEnumerable'', str ''toLocaleString'',
     str ''toString'', str ''valueOf'', str ''__defineGetter__'',
     str ''__defineSetter__'', str ''__lookupGetter__'', str ''__lookupSetter__'']"

text \<open>
  What a property read on \<open>locationLookup\<close> yields: a coordinate pair of the table, the
  member of \<open>Object.prototype\<close> of that name (a function, or for \<open>__proto__\<close> the
  prototype object itself), or \<open>undefined\<close>.
\<close>

datatype jsvalue = Entry coords | PrototypeMember jsstring | Undefined

definition getProperty :: "jsstring \<Rightarrow> jsvalue" where
  "getProperty k =
     (case map_of locationLookup k of
        Some c \<Rightarrow> Entry c
      | None \<Rightarrow> if k \<in> set objectPrototypeKeys then PrototypeMember k else Undefined)"

text \<open>Objects and functions are truthy, \<open>undefined\<close> is not.\<close>

fun truthy :: "jsvalue \<Rightarrow> bool" where
  "truthy (Entry c) = True"
| "truthy (PrototypeMember k) = True"
| "truthy Undefined = False"

text \<open>
  The loop \<open>for (const key in locationLookup) if (normalizedLocation.includes(key)) ...\<close>:
  the first key, in enumeration order, that the normalized input includes.
\<close>

fun firstIncludedKey :: "jsstring \<Rightarrow> jsstring list \<Rightarrow> jsstring option" where
  "firstIncludedKey n [] = None"
| "firstIncludedKey n (key # keys) =
     (if includesString n key then Some key else firstIncludedKey n keys)"

definition getCoordsFromLocationString :: "(jsstring \<Rightarrow> jsstring) \<Rightarrow> jsstring \<Rightarrow> jsvalue" where
  "getCoordsFromLocationString lower location =
     (let normalizedLocation = lower (trim location) in
      if truthy (getProperty normalizedLocation) then getProperty normalizedLocation
      else case firstIncludedKey normalizedLocation (map fst locationLookup) of
             Some key \<Rightarrow> getProperty key
           | None \<Rightarrow> getProperty (str ''pune''))"

text \<open>
  The comparisons and the negation the source applies to number slots. \<open>undefined\<close>
  converts to NaN, every comparison with NaN is false, and \<open>!x\<close> holds of
  \<open>undefined\<close>, NaN and zero.
\<close>

fun toNumber :: "number option \<Rightarrow> number" where
  "toNumber None = NaN"
| "toNumber (Some x) = x"

fun greaterThanZero :: "number \<Rightarrow> bool" where
  "greaterThanZero NaN = False"
| "greaterThanZero (Num r) = (0 < r)"

fun lessEqualZero :: "number \<Rightarrow> bool" where
  "lessEqualZero NaN = False"
| "lessEqualZero (Num r) = (r \<le> 0)"

fun falsy :: "number option \<Rightarrow> bool" where
  "falsy None = True"
| "falsy (Some NaN) = True"
| "falsy (Some (Num r)) = (r = 0)"

section \<open>ForecastForm.tsx: the form and its validation\<close>

record FormInputData =
  location :: jsstring
  acres :: number
  consumption :: number

text \<open>
  \<open>handleSubmit\<close> either hands the form data to the \<open>onSubmit\<close> callback or raises the
  alert "Please fill in all fields."; the submit button is disabled under the negation of
  the same condition.
\<close>

datatype formEffect = OnSubmit FormInputData | Alert

definition handleSubmit :: "FormInputData \<Rightarrow> formEffect" where
  "handleSubmit formData =
     (if greaterThanZero (FormInputData.acres formData)
         \<and> greaterThanZero (FormInputData.consumption formData)
         \<and> trim (FormInputData.location formData) \<noteq> []
      then OnSubmit formData
      else Alert)"

definition submitDisabled :: "FormInputData \<Rightarrow> bool" where
  "submitDisabled formData \<longleftrightarrow>
     \<not> (greaterThanZero (FormInputData.acres formData)
        \<and> greaterThanZero (FormInputData.consumption formData)
        \<and> trim (FormInputData.location formData) \<noteq> [])"

section \<open>Index.tsx: from the form data to the data of the results page\<close>

text \<open>
  \<open>ForecastDataForResults\<close> in Index.tsx, \<open>ForecastData\<close> in ForecastResults.tsx. Its
  numeric fields are slots: \<open>None\<close> is \<open>undefined\<close>.
\<close>

record ForecastData =
  latitude :: "number option"
  longitude :: "number option"
  acres :: "number option"
  consumption :: "number option"
  location :: jsstring

text \<open>
  \<open>coords.lat\<close> and \<open>coords.lon\<close>: a table entry has both; no member of
  \<open>Object.prototype\<close> has a property of either name, so the read yields \<open>undefined\<close>.
  Reading a property of \<open>undefined\<close> itself throws, which \<open>handleFormSubmit\<close> renders as
  \<open>None\<close>.
\<close>

fun readLat :: "jsvalue \<Rightarrow> number option" where
  "readLat (Entry c) = Some (Num (lat c))"
| "readLat (PrototypeMember k) = None"
| "readLat Undefined = None"

fun readLon :: "jsvalue \<Rightarrow> number option" where
  "readLon (Entry c) = Some (Num (lon c))"
| "readLon (PrototypeMember k) = None"
| "readLon Undefined = None"

definition handleFormSubmit :: "(jsstring \<Rightarrow> jsstring) \<Rightarrow> FormInputData \<Rightarrow> ForecastData option" where
  "handleFormSubmit lower data =
     (let coords = getCoordsFromLocationString lower (FormInputData.location data) in
      if coords = Undefined then None
      else Some \<lparr>latitude = readLat coords,
                 longitude = readLon coords,
                 acres = Some (FormInputData.acres data),
                 consumption = Some (FormInputData.consumption data),
                 location = FormInputData.location data\<rparr>)"

section \<open>ForecastResults.tsx: the request to the prediction endpoint\<close>

datatype json =
    JNull
  | JBool bool
  | JNumber number
  | JString jsstring
  | JArray "json list"
  | JObject "(jsstring \<times> json) list"

text \<open>
  \<open>JSON.stringify\<close> of an object whose properties hold numbers or \<open>undefined\<close>: a
  property holding \<open>undefined\<close> is left out, NaN is written as \<open>null\<close>, and the
  properties keep their order.
\<close>

fun stringifyNumber :: "number \<Rightarrow> json" where
  "stringifyNumber NaN = JNull"
| "stringifyNumber (Num r) = JNumber (Num r)"

fun stringifyProperties :: "(jsstring \<times> number option) list \<Rightarrow> (jsstring \<times> json) list" where
  "stringifyProperties [] = []"
| "stringifyProperties ((k, None) # ps) = stringifyProperties ps"
| "stringifyProperties ((k, Some x) # ps) = (k, stringifyNumber x) # stringifyProperties ps"

definition JSON_stringify :: "(jsstring \<times> number option) list \<Rightarrow> json" where
  "JSON_stringify properties = JObject (stringifyProperties properties)"

record httpRequest =
  url :: jsstring
  httpMethod :: jsstring
  contentType :: jsstring
  body :: json

text \<open>
  What \<open>await fetch(...)\<close> gives: the promise rejects with an \<open>Error\<close> carrying a
  message, or it resolves to a response. \<open>jsonBody\<close> is what \<open>await response.json()\<close>
  gives: \<open>None\<close> when the body is not JSON and the call throws.
\<close>

record httpResponse =
  status :: nat
  statusText :: jsstring
  jsonBody :: "json option"

datatype fetchOutcome = Rejected jsstring | Responded httpResponse

definition ok :: "httpResponse \<Rightarrow> bool" where
  "ok response \<longleftrightarrow> 200 \<le> status response \<and> status response \<le> 299"

text \<open>
  The texts \<open>setError\<close> is called with:
  "Invalid input: Acres must be a positive number." and "API Communication Error: "
  followed by the message of the error caught, which is the message of the rejected
  \<open>fetch\<close>, "API request failed: status statusText", the message of the JSON syntax error,
  or "Invalid prediction format received from API.".
\<close>

datatype errorMessage =
    InvalidAcres
  | FetchRejected jsstring
  | ApiRequestFailed nat jsstring
  | BodyNotJson
  | InvalidPredictionFormat

text \<open>The three state variables of the component; \<open>None\<close> is \<open>null\<close>.\<close>

record viewState =
  prediction :: "number option"
  loading :: bool
  error :: "errorMessage option"

text \<open>
  The test \<open>result && typeof result.predicted_kwh_month === 'number' &&
  !isNaN(result.predicted_kwh_month)\<close> on the parsed body. A property read on a value
  that is not an object, or of a name the object lacks, yields \<open>undefined\<close>, whose
  \<open>typeof\<close> is not \<open>'number'\<close>. \<open>predictedValue\<close> is the number the test lets through.
\<close>

fun truthyJson :: "json \<Rightarrow> bool" where
  "truthyJson JNull = False"
| "truthyJson (JBool b) = b"
| "truthyJson (JNumber NaN) = False"
| "truthyJson (JNumber (Num r)) = (r \<noteq> 0)"
| "truthyJson (JString s) = (s \<noteq> [])"
| "truthyJson (JArray xs) = True"
| "truthyJson (JObject ps) = True"

fun getMember :: "json \<Rightarrow> jsstring \<Rightarrow> json option" where
  "getMember (JObject ps) k = map_of ps k"
| "getMember v k = None"

fun isNaN :: "number \<Rightarrow> bool" where
  "isNaN NaN = True"
| "isNaN (Num r) = False"

definition predictedValue :: "json \<Rightarrow> number option" where
  "predictedValue result =
     (if truthyJson result
      then (case getMember result (str ''predicted_kwh_month'') of
              Some (JNumber x) \<Rightarrow> if \<not> isNaN x then Some x else None
            | other \<Rightarrow> None)
      else None)"

definition apiUrl :: jsstring where
  "apiUrl = str ''http://127.0.0.1:5000/predict''"

text \<open>
  \<open>fetchPrediction\<close>, run to completion from the state \<open>s0\<close>: the final values of the
  three state variables and the requests issued. \<open>fetch\<close> is the network.
\<close>

definition fetchPrediction ::
  "(httpRequest \<Rightarrow> fetchOutcome) \<Rightarrow> ForecastData \<Rightarrow> viewState \<Rightarrow> viewState \<times> httpRequest list" where
  "fetchPrediction fetch data s0 =
     (let s1 = s0\<lparr>loading := True, error := None, prediction := None\<rparr> in
      if falsy (acres data) \<or> lessEqualZero (toNumber (acres data))
      then (s1\<lparr>error := Some InvalidAcres, loading := False\<rparr>, [])
      else
        let requestData = [(str ''latitude'', latitude data),
                           (str ''longitude'', longitude data),
                           (str ''acres'', acres data)];
            request = \<lparr>url = apiUrl, httpMethod = str ''POST'',
                       contentType = str ''application/json'',
                       body = JSON_stringify requestData\<rparr>
        in (case fetch request of
              Rejected message \<Rightarrow>
                (s1\<lparr>error := Some (FetchRejected message), loading := False\<rparr>, [request])
            | Responded response \<Rightarrow>
                if \<not> ok response
                then (s1\<lparr>error := Some (ApiRequestFailed (status response) (statusText response)),
                          loading := False\<rparr>, [request])
                else (case jsonBody response of
                        None \<Rightarrow> (s1\<lparr>error := Some BodyNotJson, loading := False\<rparr>, [request])
                      | Some result \<Rightarrow>
                          (case predictedValue result of
                             Some x \<Rightarrow>
                               (s1\<lparr>prediction := Some x, loading := False\<rparr>, [request])
                           | None \<Rightarrow>
                               (s1\<lparr>error := Some InvalidPredictionFormat, loading := False\<rparr>,
                                [request])))))"

text \<open>
  The whole path of one submission: the form's \<open>handleSubmit\<close>, then \<open>handleFormSubmit\<close>
  of the page, then the effect of the results component, which runs \<open>fetchPrediction\<close>
  on the data it was given. \<open>None\<close> when the form raises its alert instead.
\<close>

definition submitForecast ::
  "(jsstring \<Rightarrow> jsstring) \<Rightarrow> (httpRequest \<Rightarrow> fetchOutcome) \<Rightarrow> FormInputData \<Rightarrow> viewState
     \<Rightarrow> (viewState \<times> httpRequest list) option" where
  "submitForecast lower fetch formData s0 =
     (case handleSubmit formData of
        Alert \<Rightarrow> None
      | OnSubmit d \<Rightarrow>
          (case handleFormSubmit lower d of
             None \<Rightarrow> None
           | Some dataForResults \<Rightarrow> Some (fetchPrediction fetch dataForResults s0)))"

section \<open>ForecastResults.tsx: the coverage percentage\<close>

subsection \<open>IEEE binary64 arithmetic\<close>

text \<open>
  The value of an arithmetic expression is a double: a finite number, an infinity or NaN.
  The sign of a zero is not kept.
\<close>

datatype double = Finite real | PlusInfinity | MinusInfinity | NotANumber

fun toDouble :: "number \<Rightarrow> double" where
  "toDouble NaN = NotANumber"
| "toDouble (Num r) = Finite r"

definition signedInfinity :: "bool \<Rightarrow> double" where
  "signedInfinity positive = (if positive then PlusInfinity else MinusInfinity)"

text \<open>
  \<open>binaryExponent r\<close> is the exponent \<open>k\<close> with \<open>2^k \<le> |r| < 2^(k+1)\<close>, for \<open>r\<close> other
  than zero.
\<close>

definition binaryExponent :: "real \<Rightarrow> int" where
  "binaryExponent r =
     (if 1 \<le> \<bar>r\<bar> then bitlen \<lfloor>\<bar>r\<bar>\<rfloor> - 1 else - bitlen (\<lceil>1 / \<bar>r\<bar>\<rceil> - 1))"

definition roundTiesToEven :: "real \<Rightarrow> int" where
  "roundTiesToEven x =
     (let n = \<lfloor>x\<rfloor> in
      if x - of_int n < 1 / 2 then n
      else if 1 / 2 < x - of_int n then n + 1
      else if even n then n else n + 1)"

text \<open>
  The rounding every arithmetic operation ends with: the double nearest to the exact
  result, a tie going to the even significand. Doubles have 53 significant bits, so the
  unit in the last place of \<open>r\<close> is \<open>2^(k - 52)\<close>, with \<open>k\<close> not below the least normal
  exponent \<open>-1022\<close>; a result of magnitude \<open>2^1024\<close> or more is an infinity.
\<close>

definition binary64 :: "real \<Rightarrow> double" where
  "binary64 r =
     (if r = 0 then Finite 0
      else
        let e = max (binaryExponent r) (- 1022) - 52;
            v = of_int (roundTiesToEven (r / 2 powi e)) * 2 powi e
        in if 2 ^ 1024 \<le> \<bar>v\<bar> then signedInfinity (0 < r) else Finite v)"

text \<open>
  The operator \<open>/\<close>. A quotient by a zero is an infinity or NaN, its sign that of the
  zero; \<open>divide\<close> returns \<open>None\<close> there, so that a division by zero is visible in the
  result of every expression that performs one.
\<close>

fun divide :: "double \<Rightarrow> double \<Rightarrow> double option" where
  "divide NotANumber y = (if y = Finite 0 then None else Some NotANumber)"
| "divide x NotANumber = Some NotANumber"
| "divide (Finite a) (Finite b) = (if b = 0 then None else Some (binary64 (a / b)))"
| "divide (Finite a) PlusInfinity = Some (Finite 0)"
| "divide (Finite a) MinusInfinity = Some (Finite 0)"
| "divide PlusInfinity (Finite b) = (if b = 0 then None else Some (signedInfinity (0 < b)))"
| "divide MinusInfinity (Finite b) = (if b = 0 then None else Some (signedInfinity (b < 0)))"
| "divide PlusInfinity PlusInfinity = Some NotANumber"
| "divide PlusInfinity MinusInfinity = Some NotANumber"
| "divide MinusInfinity PlusInfinity = Some NotANumber"
| "divide MinusInfinity MinusInfinity = Some NotANumber"

text \<open>The operator \<open>*\<close>.\<close>

fun multiply :: "double \<Rightarrow> double \<Rightarrow> double" where
  "multiply NotANumber y = NotANumber"
| "multiply x NotANumber = NotANumber"
| "multiply (Finite a) (Finite b) = binary64 (a * b)"
| "multiply (Finite a) PlusInfinity = (if a = 0 then NotANumber else signedInfinity (0 < a))"
| "multiply (Finite a) MinusInfinity = (if a = 0 then NotANumber else signedInfinity (a < 0))"
| "multiply PlusInfinity (Finite b) = (if b = 0 then NotANumber else signedInfinity (0 < b))"
| "multiply MinusInfinity (Finite b) = (if b = 0 then NotANumber else signedInfinity (b < 0))"
| "multiply PlusInfinity PlusInfinity = PlusInfinity"
| "multiply PlusInfinity MinusInfinity = MinusInfinity"
| "multiply MinusInfinity PlusInfinity = MinusInfinity"
| "multiply MinusInfinity MinusInfinity = PlusInfinity"

text \<open>
  \<open>Math.round\<close> returns the integer nearest to its argument, a tie going upwards; the
  integer nearest to a double is a double, so no rounding follows. \<open>Math.min\<close> and
  \<open>Math.max\<close> return NaN when an argument is NaN.
\<close>

fun Math_round :: "double \<Rightarrow> double" where
  "Math_round (Finite r) = Finite (of_int \<lfloor>r + 1 / 2\<rfloor>)"
| "Math_round x = x"

fun Math_min :: "double \<Rightarrow> double \<Rightarrow> double" where
  "Math_min NotANumber y = NotANumber"
| "Math_min x NotANumber = NotANumber"
| "Math_min MinusInfinity y = MinusInfinity"
| "Math_min x MinusInfinity = MinusInfinity"
| "Math_min PlusInfinity y = y"
| "Math_min x PlusInfinity = x"
| "Math_min (Finite a) (Finite b) = Finite (min a b)"

fun Math_max :: "double \<Rightarrow> double \<Rightarrow> double" where
  "Math_max NotANumber y = NotANumber"
| "Math_max x NotANumber = NotANumber"
| "Math_max PlusInfinity y = PlusInfinity"
| "Math_max x PlusInfinity = PlusInfinity"
| "Math_max MinusInfinity y = y"
| "Math_max x MinusInfinity = x"
| "Math_max (Finite a) (Finite b) = Finite (max a b)"

subsection \<open>The expression of the page\<close>

text \<open>\<open>const actualOutput = prediction.predicted_kwh_month ?? 0\<close>\<close>

definition actualOutput :: "viewState \<Rightarrow> number" where
  "actualOutput s = (case prediction s of None \<Rightarrow> Num 0 | Some v \<Rightarrow> v)"

text \<open>
  \<open>data.consumption > 0 ? Math.max(0, Math.min(100, Math.round((actualOutput /
  data.consumption) * 100))) : 0\<close>
\<close>

definition coveragePercent :: "viewState \<Rightarrow> ForecastData \<Rightarrow> double option" where
  "coveragePercent s data =
     (if greaterThanZero (toNumber (consumption data))
      then (case divide (toDouble (actualOutput s)) (toDouble (toNumber (consumption data))) of
              None \<Rightarrow> None
            | Some q \<Rightarrow>
                Some (Math_max (Finite 0)
                        (Math_min (Finite 100) (Math_round (multiply q (Finite 100))))))
      else Some (Finite 0))"

section \<open>The prediction service behind the endpoint\<close>

text \<open>
  The service (the Flask back end) is not among the sources. Its two reductions are
  modelled from the specification, over exact reals.
\<close>

datatype pipelineError = InvalidLandAreaError | EmptyForecastError

record timestamp =
  date :: nat
  hour :: nat

record HourlySample =
  sampleTime :: timestamp
  ambient_temperature :: real
  irradiance :: real

record DailyWeatherFeature =
  featureDate :: nat
  mean_temperature :: real
  irradiance_energy :: real

record DailyYield =
  yieldDate :: nat
  kwh_per_acre :: real

record MonthlyEstimate =
  predicted_kwh_month :: real

text \<open>
  Modelled from the spec: the grouping of \<open>WeatherAggregator.aggregate\<close>, which is
  missing from the sources. Samples are grouped by the date of their timestamp, in
  contiguous runs, in the order of the input.
\<close>

fun groupByDate :: "HourlySample list \<Rightarrow> HourlySample list list" where
  "groupByDate [] = []"
| "groupByDate (x # xs) =
     (case groupByDate xs of
        (y # g) # gs \<Rightarrow>
          if date (sampleTime x) = date (sampleTime y) then (x # y # g) # gs
          else [x] # (y # g) # gs
      | other \<Rightarrow> [[x]])"

text \<open>
  Modelled from the spec: the feature of one day of \<open>WeatherAggregator.aggregate\<close>, which
  is missing from the sources: the mean of the temperatures and the sum of the hourly
  irradiances, each taken for one hour and divided by 1000.
\<close>

definition dailyFeature :: "HourlySample list \<Rightarrow> DailyWeatherFeature" where
  "dailyFeature g =
     \<lparr>featureDate = (case g of [] \<Rightarrow> 0 | x # xs \<Rightarrow> date (sampleTime x)),
      mean_temperature = sum_list (map ambient_temperature g) / real (length g),
      irradiance_energy = sum_list (map (\<lambda>x. irradiance x * 1 / 1000) g)\<rparr>"

text \<open>
  Modelled from the spec: \<open>WeatherAggregator.aggregate\<close>, which is missing from the
  sources. It fails with \<open>EmptyForecastError\<close> on the empty sequence.
\<close>

definition aggregate :: "HourlySample list \<Rightarrow> pipelineError + DailyWeatherFeature list" where
  "aggregate hourly =
     (if hourly = [] then Inl EmptyForecastError
      else Inr (map dailyFeature (groupByDate hourly)))"

text \<open>
  Modelled from the spec: \<open>MonthlyEstimator.estimate\<close>, which is missing from the
  sources: \<open>avg_daily = mean(y.kwh_per_acre for y in daily_yields)\<close>,
  \<open>predicted_kwh_month = avg_daily * acres * 30.4\<close>, and \<open>EmptyForecastError\<close> on the
  empty sequence. That acres is positive is validated before this component is reached.
\<close>

definition estimate :: "DailyYield list \<Rightarrow> real \<Rightarrow> pipelineError + MonthlyEstimate" where
  "estimate daily_yields acres' =
     (if daily_yields = [] then Inl EmptyForecastError
      else
        let avg_daily = sum_list (map kwh_per_acre daily_yields) / real (length daily_yields)
        in Inr \<lparr>predicted_kwh_month = avg_daily * acres' * 30.4\<rparr>)"

section \<open>Sample inputs\<close>

text \<open>
  The state the results component starts in (\<open>useState\<close>: no prediction, loading, no
  error), a network that answers every request with one given response, a response with
  a JSON body, and the data of a five-acre plot in Pune.
\<close>

definition initialState :: viewState where
  "initialState = \<lparr>prediction = None, loading = True, error = None\<rparr>"

definition respondWith :: "httpResponse \<Rightarrow> httpRequest \<Rightarrow> fetchOutcome" where
  "respondWith response request = Responded response"

definition sampleData :: ForecastData where
  "sampleData = \<lparr>latitude = Some (Num 18.5204), longitude = Some (Num 73.8567),
                 acres = Some (Num 5), consumption = Some (Num 500), location = str ''Pune''\<rparr>"

definition jsonResponse :: "nat \<Rightarrow> json \<Rightarrow> httpResponse" where
  "jsonResponse code result = \<lparr>status = code, statusText = [], jsonBody = Some result\<rparr>"

section \<open>Properties of the location lookup\<close>

subsection \<open>The table and the loop over its keys\<close>

lemma proto_no_key: "\<forall>p \<in> set objectPrototypeKeys. firstIncludedKey p (map fst locationLookup) = None"
  by code_simp

lemma keys_distinct: "distinct (map fst locationLookup)"
  by code_simp

lemma firstIncludedKey_None_iff:
  "firstIncludedKey n ks = None \<longleftrightarrow> (\<forall>k \<in> set ks. \<not> includesString n k)"
  by (induction ks) auto

lemma firstIncludedKey_Some:
  "firstIncludedKey n ks = Some k \<Longrightarrow> k \<in> set ks \<and> includesString n k"
  by (induction ks) (auto split: if_splits)

lemma firstIncludedKey_index:
  "i < length ks \<Longrightarrow> includesString n (ks ! i) \<Longrightarrow> (\<forall>j<i. \<not> includesString n (ks ! j))
   \<Longrightarrow> firstIncludedKey n ks = Some (ks ! i)"
proof (induction ks arbitrary: i)
  case Nil
  then show ?case by simp
next
  case (Cons k ks)
  show ?case
  proof (cases i)
    case 0
    with Cons.prems show ?thesis by simp
  next
    case (Suc i')
    from Cons.prems Suc have "\<not> includesString n k" by auto
    moreover from Cons.prems Suc have "firstIncludedKey n ks = Some (ks ! i')"
      by (intro Cons.IH) auto
    ultimately show ?thesis using Suc by simp
  qed
qed

lemma getProperty_own:
  "map_of locationLookup k = Some c \<Longrightarrow> getProperty k = Entry c"
  by (simp add: getProperty_def)

lemma getProperty_table_index:
  assumes "i < length locationLookup"
  shows "getProperty (fst (locationLookup ! i)) = Entry (snd (locationLookup ! i))"
proof -
  have "(fst (locationLookup ! i), snd (locationLookup ! i)) \<in> set locationLookup"
    using assms by (metis nth_mem prod.collapse)
  then have "map_of locationLookup (fst (locationLookup ! i)) = Some (snd (locationLookup ! i))"
    using keys_distinct by (rule map_of_is_SomeI[rotated])
  then show ?thesis by (rule getProperty_own)
qed

lemma includes_key_not_prototype:
  assumes "k \<in> set (map fst locationLookup)" "includesString n k"
  shows "n \<notin> set objectPrototypeKeys"
proof
  assume "n \<in> set objectPrototypeKeys"
  then have "firstIncludedKey n (map fst locationLookup) = None"
    using proto_no_key by blast
  then have "\<forall>k \<in> set (map fst locationLookup). \<not> includesString n k"
    by (simp only: firstIncludedKey_None_iff)
  then show False using assms by blast
qed

lemma getProperty_undefined:
  "map_of locationLookup n = None \<Longrightarrow> n \<notin> set objectPrototypeKeys \<Longrightarrow> getProperty n = Undefined"
  by (simp add: getProperty_def)

lemma getProperty_pune: "getProperty (str ''pune'') = Entry \<lparr>lat = 18.5204, lon = 73.8567\<rparr>"
  by code_simp

lemma table_head: "locationLookup ! 0 = (str ''pune'', \<lparr>lat = 18.5204, lon = 73.8567\<rparr>)" "0 < length locationLookup"
  by (simp_all add: locationLookup_def)


subsection \<open>The first key of the table wins\<close>

text \<open>
  Claim C8. When the normalized location is not a key of the table, the lookup returns the
  coordinates of the first key, in the order of the table, that the normalized location
  includes. In particular an input that includes \<open>pune\<close> and is not a key resolves to
  central Pune, whatever more specific neighbourhood it names, since \<open>pune\<close> is the first
  key.
\<close>

theorem first_declared_key_wins:
  assumes notkey: "map_of locationLookup (lower (trim s)) = None"
  shows "(\<forall>i < length locationLookup.
            includesString (lower (trim s)) (fst (locationLookup ! i))
            \<and> (\<forall>j<i. \<not> includesString (lower (trim s)) (fst (locationLookup ! j)))
            \<longrightarrow> getCoordsFromLocationString lower s = Entry (snd (locationLookup ! i)))
       \<and> (includesString (lower (trim s)) (str ''pune'')
            \<longrightarrow> getCoordsFromLocationString lower s = Entry \<lparr>lat = 18.5204, lon = 73.8567\<rparr>)"
proof -
  define n where "n = lower (trim s)"
  have first: "getCoordsFromLocationString lower s = Entry (snd (locationLookup ! i))"
    if i: "i < length locationLookup"
      and inc: "includesString n (fst (locationLookup ! i))"
      and min: "\<forall>j<i. \<not> includesString n (fst (locationLookup ! j))" for i
  proof -
    let ?keys = "map fst locationLookup"
    have "fst (locationLookup ! i) \<in> set ?keys" using i by simp
    then have "n \<notin> set objectPrototypeKeys"
      using inc by (rule includes_key_not_prototype)
    then have undef: "getProperty n = Undefined"
      using notkey by (simp add: getProperty_undefined n_def)
    have "firstIncludedKey n ?keys = Some (?keys ! i)"
      using i inc min by (intro firstIncludedKey_index) simp_all
    then have "firstIncludedKey n ?keys = Some (fst (locationLookup ! i))"
      using i by simp
    then show ?thesis
      using undef i by (simp add: getCoordsFromLocationString_def getProperty_table_index n_def)
  qed
  have pune: "getCoordsFromLocationString lower s = Entry \<lparr>lat = 18.5204, lon = 73.8567\<rparr>"
    if "includesString n (str ''pune'')"
    using first[of 0] that table_head by simp
  from first pune show ?thesis unfolding n_def by blast
qed

theorem first_declared_key_wins_witness:
  "map_of locationLookup (asciiLowerCase (trim (str ''Kothrud, Pune''))) = None
   \<and> includesString (asciiLowerCase (trim (str ''Kothrud, Pune''))) (str ''kothrud'')
   \<and> includesString (asciiLowerCase (trim (str ''Kothrud, Pune''))) (str ''pune'')
   \<and> getCoordsFromLocationString asciiLowerCase (str ''Kothrud, Pune'')
       = Entry \<lparr>lat = 18.5204, lon = 73.8567\<rparr>"
proof -
  have h1: "map_of locationLookup (asciiLowerCase (trim (str ''Kothrud, Pune''))) = None"
    by code_simp
  have h2: "includesString (asciiLowerCase (trim (str ''Kothrud, Pune''))) (str ''kothrud'')"
    by code_simp
  have h3: "includesString (asciiLowerCase (trim (str ''Kothrud, Pune''))) (str ''pune'')"
    by code_simp
  from first_declared_key_wins[of asciiLowerCase "str ''Kothrud, Pune''", OF h1] h1 h2 h3
  show ?thesis by blast
qed

subsection \<open>Members of the prototype\<close>

text \<open>
  Claim C1. The input \<open>constructor\<close> is not a key of the table and includes none, so the
  lookup should fall back to the coordinates of Pune. The test
  \<open>if (locationLookup[normalizedLocation])\<close> finds the inherited property
  \<open>Object.prototype.constructor\<close> instead, and the function returns it: a function object,
  not a coordinate pair.
\<close>

theorem constructor_resolves_to_prototype_member:
  "map_of locationLookup (asciiLowerCase (trim (str ''constructor''))) = None
   \<and> firstIncludedKey (asciiLowerCase (trim (str ''constructor''))) (map fst locationLookup) = None
   \<and> getCoordsFromLocationString asciiLowerCase (str ''constructor'')
       = PrototypeMember (str ''constructor'')"
  by code_simp

text \<open>
  Off the property names of \<open>Object.prototype\<close> the lookup does what its comments say: the
  entry of the normalized input when that is a key, else the entry of a key the input
  includes, else the entry of \<open>pune\<close>.
\<close>

lemma resolver_cases:
  assumes "lower (trim s) \<notin> set objectPrototypeKeys"
  shows "(\<forall>c. map_of locationLookup (lower (trim s)) = Some c
            \<longrightarrow> getCoordsFromLocationString lower s = Entry c)
       \<and> (map_of locationLookup (lower (trim s)) = None
            \<and> (\<exists>k \<in> set (map fst locationLookup). includesString (lower (trim s)) k)
            \<longrightarrow> (\<exists>k c. map_of locationLookup k = Some c \<and> includesString (lower (trim s)) k
                   \<and> getCoordsFromLocationString lower s = Entry c))
       \<and> (map_of locationLookup (lower (trim s)) = None
            \<and> (\<forall>k \<in> set (map fst locationLookup). \<not> includesString (lower (trim s)) k)
            \<longrightarrow> getCoordsFromLocationString lower s = Entry \<lparr>lat = 18.5204, lon = 73.8567\<rparr>)"
proof (intro conjI allI impI)
  fix c assume "map_of locationLookup (lower (trim s)) = Some c"
  then show "getCoordsFromLocationString lower s = Entry c"
    by (simp add: getCoordsFromLocationString_def getProperty_def)
next
  assume a: "map_of locationLookup (lower (trim s)) = None
     \<and> (\<exists>k \<in> set (map fst locationLookup). includesString (lower (trim s)) k)"
  then have undef: "getProperty (lower (trim s)) = Undefined"
    using assms by (simp add: getProperty_undefined)
  from a obtain k where k: "firstIncludedKey (lower (trim s)) (map fst locationLookup) = Some k"
    using firstIncludedKey_None_iff by (metis not_Some_eq)
  then have kin: "k \<in> set (map fst locationLookup)" and inc: "includesString (lower (trim s)) k"
    using firstIncludedKey_Some by blast+
  then obtain c where c: "map_of locationLookup k = Some c"
    by (metis map_of_eq_None_iff not_Some_eq set_map)
  then have "getProperty k = Entry c" by (rule getProperty_own)
  then have "getCoordsFromLocationString lower s = Entry c"
    using undef k by (simp add: getCoordsFromLocationString_def)
  with c inc show "\<exists>k c. map_of locationLookup k = Some c \<and> includesString (lower (trim s)) k
                   \<and> getCoordsFromLocationString lower s = Entry c" by blast
next
  assume a: "map_of locationLookup (lower (trim s)) = None
     \<and> (\<forall>k \<in> set (map fst locationLookup). \<not> includesString (lower (trim s)) k)"
  then have undef: "getProperty (lower (trim s)) = Undefined"
    using assms by (simp add: getProperty_undefined)
  from a have "firstIncludedKey (lower (trim s)) (map fst locationLookup) = None"
    unfolding firstIncludedKey_None_iff by blast
  then show "getCoordsFromLocationString lower s = Entry \<lparr>lat = 18.5204, lon = 73.8567\<rparr>"
    using undef by (simp add: getCoordsFromLocationString_def getProperty_pune)
qed

text \<open>
  The lookup never returns \<open>undefined\<close>: \<open>handleFormSubmit\<close> does not throw on reading
  \<open>coords.lat\<close>.
\<close>

lemma getCoordsFromLocationString_defined:
  "getCoordsFromLocationString lower s \<noteq> Undefined"
proof (cases "truthy (getProperty (lower (trim s)))")
  case True
  then show ?thesis
    by (auto simp: getCoordsFromLocationString_def)
next
  case False
  show ?thesis
  proof (cases "firstIncludedKey (lower (trim s)) (map fst locationLookup)")
    case None
    with False show ?thesis
      by (simp add: getCoordsFromLocationString_def getProperty_pune)
  next
    case (Some k)
    then have "k \<in> set (map fst locationLookup)"
      using firstIncludedKey_Some by blast
    then obtain c where "map_of locationLookup k = Some c"
      by (metis map_of_eq_None_iff not_Some_eq set_map)
    then have "getProperty k = Entry c" by (rule getProperty_own)
    with False Some show ?thesis
      by (simp add: getCoordsFromLocationString_def)
  qed
qed

subsection \<open>Normalization\<close>

lemma dropWhile_trailing_keeps_head:
  assumes "ys = [] \<or> \<not> P (hd ys)"
  shows "dropWhile P (rev (dropWhile P (rev ys))) = rev (dropWhile P (rev ys))"
proof (cases ys)
  case Nil
  then show ?thesis by simp
next
  case (Cons y zs)
  with assms have ny: "\<not> P y" by simp
  then have "rev (dropWhile P (rev (y # zs))) = y # rev (dropWhile P (rev zs))"
    by (simp add: dropWhile_append)
  then show ?thesis using Cons ny by simp
qed

lemma trim_idem: "trim (trim t) = trim t"
proof -
  have "dropWhile isWhiteSpace t = [] \<or> \<not> isWhiteSpace (hd (dropWhile isWhiteSpace t))"
    using hd_dropWhile by blast
  then show ?thesis
    unfolding trim_def by (simp add: dropWhile_trailing_keeps_head)
qed

lemma printable_not_whitespace:
  "33 \<le> unat d \<Longrightarrow> unat d \<le> 126 \<Longrightarrow> \<not> isWhiteSpace d"
  unfolding isWhiteSpace_def by (auto simp: word_le_nat_alt)

lemma isWhiteSpace_asciiLowerUnit: "isWhiteSpace (asciiLowerUnit c) = isWhiteSpace c"
proof (cases "0x41 \<le> c \<and> c \<le> 0x5A")
  case False
  then have "asciiLowerUnit c = c" unfolding asciiLowerUnit_def by (rule if_not_P)
  then show ?thesis by simp
next
  case True
  then have r: "65 \<le> unat c" "unat c \<le> 90"
    by (simp_all add: word_le_nat_alt)
  then have u: "unat (c + 0x20) = unat c + 32"
    by (simp add: unat_add_lem[THEN iffD1])
  have "\<not> isWhiteSpace c"
    using r by (intro printable_not_whitespace) simp_all
  moreover have "\<not> isWhiteSpace (c + 0x20)"
    using r u by (intro printable_not_whitespace) simp_all
  moreover have "asciiLowerUnit c = c + 0x20"
    unfolding asciiLowerUnit_def using True by (rule if_P)
  ultimately show ?thesis by simp
qed

lemma asciiLowerUnit_idem: "asciiLowerUnit (asciiLowerUnit c) = asciiLowerUnit c"
proof (cases "0x41 \<le> c \<and> c \<le> 0x5A")
  case False
  then have "asciiLowerUnit c = c" unfolding asciiLowerUnit_def by (rule if_not_P)
  then show ?thesis by simp
next
  case True
  then have r: "65 \<le> unat c" "unat c \<le> 90"
    by (simp_all add: word_le_nat_alt)
  then have u: "unat (c + 0x20) = unat c + 32"
    by (simp add: unat_add_lem[THEN iffD1])
  have low: "asciiLowerUnit c = c + 0x20"
    unfolding asciiLowerUnit_def using True by (rule if_P)
  have "\<not> (0x41 \<le> c + 0x20 \<and> c + 0x20 \<le> 0x5A)"
    using r u by (simp add: word_le_nat_alt)
  then have "asciiLowerUnit (c + 0x20) = c + 0x20"
    unfolding asciiLowerUnit_def by (rule if_not_P)
  with low show ?thesis by simp
qed

lemma asciiLowerCase_idem: "asciiLowerCase (asciiLowerCase t) = asciiLowerCase t"
  by (simp add: asciiLowerCase_def asciiLowerUnit_idem)

lemma dropWhile_asciiLowerCase:
  "dropWhile isWhiteSpace (asciiLowerCase t) = asciiLowerCase (dropWhile isWhiteSpace t)"
  by (induction t) (simp_all add: asciiLowerCase_def isWhiteSpace_asciiLowerUnit)

lemma trim_asciiLowerCase: "trim (asciiLowerCase t) = asciiLowerCase (trim t)"
proof -
  have r: "rev (asciiLowerCase u) = asciiLowerCase (rev u)" for u
    by (simp add: asciiLowerCase_def rev_map)
  show ?thesis
    unfolding trim_def by (simp only: dropWhile_asciiLowerCase r)
qed

lemma normalization_invariant:
  assumes idem: "\<And>t. lower (lower t) = lower t"
    and trimmed: "\<And>t. trim (lower (trim t)) = lower (trim t)"
  shows "getCoordsFromLocationString lower (lower (trim s)) = getCoordsFromLocationString lower s"
  by (simp add: getCoordsFromLocationString_def idem trimmed)

lemma normalization_invariant_ascii:
  "getCoordsFromLocationString asciiLowerCase (asciiLowerCase (trim s))
     = getCoordsFromLocationString asciiLowerCase s"
  by (rule normalization_invariant) (simp_all add: asciiLowerCase_idem trim_asciiLowerCase trim_idem)


text \<open>
  Claim C9. The lookup does not return a coordinate pair for every input: for
  \<open>__PROTO__\<close> between blanks it returns \<open>Object.prototype\<close>, whose \<open>lat\<close> and \<open>lon\<close> are
  \<open>undefined\<close>. (That the result does not change under trimming and lower-casing is
  \<open>normalization_invariant\<close>.)
\<close>

theorem proto_resolves_to_no_coordinates:
  "getCoordsFromLocationString asciiLowerCase (str '' __PROTO__ '')
     = PrototypeMember (str ''__proto__'')
   \<and> readLat (getCoordsFromLocationString asciiLowerCase (str '' __PROTO__ '')) = None
   \<and> readLon (getCoordsFromLocationString asciiLowerCase (str '' __PROTO__ '')) = None"
  by code_simp

section \<open>Properties of the request\<close>

lemma acres_guard_cases:
  "falsy a \<or> lessEqualZero (toNumber a) \<longleftrightarrow> \<not> (\<exists>r. a = Some (Num r) \<and> 0 < r)"
proof (cases a)
  case None
  then show ?thesis by simp
next
  case (Some x)
  then show ?thesis by (cases x) auto
qed

text \<open>
  Claim C2. When the acres slot holds \<open>undefined\<close>, NaN, zero or a negative number,
  \<open>fetchPrediction\<close> ends in the error state "Invalid input: Acres must be a positive
  number." with no request issued and no prediction stored.
\<close>

theorem invalid_acres_rejected_before_request:
  assumes "acres data = None \<or> acres data = Some NaN \<or> (\<exists>r. acres data = Some (Num r) \<and> r \<le> 0)"
  shows "snd (fetchPrediction fetch data s0) = []
       \<and> prediction (fst (fetchPrediction fetch data s0)) = None
       \<and> error (fst (fetchPrediction fetch data s0)) = Some InvalidAcres
       \<and> \<not> loading (fst (fetchPrediction fetch data s0))"
proof -
  from assms have "falsy (acres data) \<or> lessEqualZero (toNumber (acres data))"
    unfolding acres_guard_cases by auto
  then show ?thesis by (simp add: fetchPrediction_def Let_def)
qed

theorem invalid_acres_rejected_before_request_witness:
  "snd (fetchPrediction (\<lambda>r. Responded \<lparr>status = 200, statusText = str ''OK'',
          jsonBody = Some (JObject [(str ''predicted_kwh_month'', JNumber (Num 3040))])\<rparr>)
        \<lparr>latitude = Some (Num 18.5204), longitude = Some (Num 73.8567), acres = Some (Num (-2)),
         consumption = Some (Num 500), location = str ''Pune''\<rparr>
        \<lparr>prediction = Some (Num 1), loading = False, error = None\<rparr>) = []
   \<and> prediction (fst (fetchPrediction (\<lambda>r. Responded \<lparr>status = 200, statusText = str ''OK'',
          jsonBody = Some (JObject [(str ''predicted_kwh_month'', JNumber (Num 3040))])\<rparr>)
        \<lparr>latitude = Some (Num 18.5204), longitude = Some (Num 73.8567), acres = Some (Num (-2)),
         consumption = Some (Num 500), location = str ''Pune''\<rparr>
        \<lparr>prediction = Some (Num 1), loading = False, error = None\<rparr>)) = None"
  using invalid_acres_rejected_before_request
    [of "\<lparr>latitude = Some (Num 18.5204), longitude = Some (Num 73.8567), acres = Some (Num (-2)),
         consumption = Some (Num 500), location = str ''Pune''\<rparr>"
        "\<lambda>r. Responded \<lparr>status = 200, statusText = str ''OK'',
          jsonBody = Some (JObject [(str ''predicted_kwh_month'', JNumber (Num 3040))])\<rparr>"
        "\<lparr>prediction = Some (Num 1), loading = False, error = None\<rparr>"]
  by simp

lemma valid_acres_one_request:
  assumes "acres data = Some (Num r)" "0 < r"
  shows "snd (fetchPrediction fetch data s0) =
           [\<lparr>url = apiUrl, httpMethod = str ''POST'', contentType = str ''application/json'',
             body = JSON_stringify [(str ''latitude'', latitude data),
                                    (str ''longitude'', longitude data),
                                    (str ''acres'', acres data)]\<rparr>]"
  using assms
  by (simp add: fetchPrediction_def Let_def split: fetchOutcome.splits option.splits)

text \<open>
  Claim C3. A submission whose location is \<open>constructor\<close> passes the validation of the
  form; the lookup returns a member of \<open>Object.prototype\<close>, so \<open>latitude\<close> and
  \<open>longitude\<close> of the data for the results page are \<open>undefined\<close>, and
  \<open>JSON.stringify\<close> leaves both out: the body of the request has the single field
  \<open>acres\<close>.
\<close>

theorem constructor_request_lacks_coordinates:
  "map_option (map body \<circ> snd)
     (submitForecast asciiLowerCase fetch
        \<lparr>FormInputData.location = str ''constructor'', FormInputData.acres = Num 5,
          FormInputData.consumption = Num 500\<rparr> s0)
   = Some [JObject [(str ''acres'', JNumber (Num 5))]]"
proof -
  have c: "getCoordsFromLocationString asciiLowerCase (str ''constructor'')
             = PrototypeMember (str ''constructor'')"
    by code_simp
  have t: "trim (str ''constructor'') \<noteq> []"
    by code_simp
  have h: "handleSubmit \<lparr>FormInputData.location = str ''constructor'', FormInputData.acres = Num 5,
          FormInputData.consumption = Num 500\<rparr>
             = OnSubmit \<lparr>FormInputData.location = str ''constructor'', FormInputData.acres = Num 5,
          FormInputData.consumption = Num 500\<rparr>"
    using t by (simp add: handleSubmit_def)
  have f: "handleFormSubmit asciiLowerCase
             \<lparr>FormInputData.location = str ''constructor'', FormInputData.acres = Num 5,
          FormInputData.consumption = Num 500\<rparr>
           = Some \<lparr>latitude = None, longitude = None, acres = Some (Num 5),
                   consumption = Some (Num 500), location = str ''constructor''\<rparr>"
    using c by (simp add: handleFormSubmit_def)
  have "submitForecast asciiLowerCase fetch
          \<lparr>FormInputData.location = str ''constructor'', FormInputData.acres = Num 5,
          FormInputData.consumption = Num 500\<rparr> s0
        = Some (fetchPrediction fetch
            \<lparr>latitude = None, longitude = None, acres = Some (Num 5),
              consumption = Some (Num 500), location = str ''constructor''\<rparr> s0)"
    by (simp only: submitForecast_def h f formEffect.case option.case)
  moreover have "map body (snd (fetchPrediction fetch
            \<lparr>latitude = None, longitude = None, acres = Some (Num 5),
              consumption = Some (Num 500), location = str ''constructor''\<rparr> s0))
        = [JObject [(str ''acres'', JNumber (Num 5))]]"
    by (simp add: valid_acres_one_request[where r = 5] JSON_stringify_def)
  ultimately show ?thesis by simp
qed

text \<open>
  When the location resolves to an entry of the table, the one request issued carries
  exactly latitude, longitude and acres, the coordinates being those of the entry and acres
  the number typed into the form; consumption and the location string are not part of it.
\<close>

lemma resolved_request_has_three_fields:
  assumes "handleSubmit formData = OnSubmit d"
    and "getCoordsFromLocationString lower (FormInputData.location d) = Entry c"
  shows "\<exists>a st. FormInputData.acres formData = Num a \<and> 0 < a
         \<and> submitForecast lower fetch formData s0 =
             Some (st, [\<lparr>url = apiUrl, httpMethod = str ''POST'',
                         contentType = str ''application/json'',
                         body = JObject [(str ''latitude'', JNumber (Num (lat c))),
                                         (str ''longitude'', JNumber (Num (lon c))),
                                         (str ''acres'', JNumber (Num a))]\<rparr>])"
proof -
  from assms(1) have d: "d = formData" and g: "greaterThanZero (FormInputData.acres formData)"
    by (auto simp: handleSubmit_def split: if_splits)
  from g obtain a where a: "FormInputData.acres formData = Num a" "0 < a"
    by (cases "FormInputData.acres formData") auto
  let ?data = "\<lparr>latitude = Some (Num (lat c)), longitude = Some (Num (lon c)),
                acres = Some (Num a), consumption = Some (FormInputData.consumption formData),
                location = FormInputData.location formData\<rparr>"
  have f: "handleFormSubmit lower formData = Some ?data"
    using assms(2) d a by (simp add: handleFormSubmit_def)
  have "snd (fetchPrediction fetch ?data s0) =
          [\<lparr>url = apiUrl, httpMethod = str ''POST'', contentType = str ''application/json'',
            body = JObject [(str ''latitude'', JNumber (Num (lat c))),
                            (str ''longitude'', JNumber (Num (lon c))),
                            (str ''acres'', JNumber (Num a))]\<rparr>]"
    using a by (simp add: valid_acres_one_request[where r = a] JSON_stringify_def)
  then show ?thesis
    using a assms(1) d f unfolding submitForecast_def
    by (cases "fetchPrediction fetch ?data s0") auto
qed

section \<open>Properties of the response handling\<close>

lemma predictedValue_Some_iff:
  "predictedValue result = Some x \<longleftrightarrow>
     (\<exists>ps r. result = JObject ps
        \<and> map_of ps (str ''predicted_kwh_month'') = Some (JNumber (Num r)) \<and> x = Num r)"
proof (cases result)
  case (JObject ps)
  show ?thesis
  proof (cases "map_of ps (str ''predicted_kwh_month'')")
    case None
    with JObject show ?thesis by (simp add: predictedValue_def)
  next
    case (Some v)
    show ?thesis
    proof (cases v)
      case (JNumber y)
      with JObject Some show ?thesis by (cases y) (auto simp: predictedValue_def)
    qed (use JObject Some in \<open>simp_all add: predictedValue_def\<close>)
  qed
qed (simp_all add: predictedValue_def)

lemma predictedValue_None_iff:
  "predictedValue result = None \<longleftrightarrow>
     \<not> (\<exists>ps r. result = JObject ps
           \<and> map_of ps (str ''predicted_kwh_month'') = Some (JNumber (Num r)))"
proof -
  have "predictedValue result = None \<longleftrightarrow> \<not> (\<exists>x. predictedValue result = Some x)"
    by auto
  then show ?thesis unfolding predictedValue_Some_iff by blast
qed

lemma sample_request:
  "snd (fetchPrediction fetch sampleData s0) =
     [\<lparr>url = apiUrl, httpMethod = str ''POST'', contentType = str ''application/json'',
       body = JObject [(str ''latitude'', JNumber (Num 18.5204)),
                       (str ''longitude'', JNumber (Num 73.8567)),
                       (str ''acres'', JNumber (Num 5))]\<rparr>]"
  by (simp add: valid_acres_one_request[where r = 5] sampleData_def JSON_stringify_def)

text \<open>
  Claim C4. Let the request that \<open>fetchPrediction\<close> issued be answered by a response.
  The prediction is stored, with no error, when the status is 2xx and the parsed body is an
  object whose \<open>predicted_kwh_month\<close> is a number other than NaN. For every other status,
  and for every 2xx body without such a field (a body that is not JSON included), the
  component ends in the error state and the prediction stays \<open>null\<close>.
\<close>

theorem response_accepted_only_when_valid:
  assumes req: "snd (fetchPrediction fetch data s0) = [request]"
    and resp: "fetch request = Responded response"
  shows "(\<forall>ps r. ok response \<and> jsonBody response = Some (JObject ps)
              \<and> map_of ps (str ''predicted_kwh_month'') = Some (JNumber (Num r))
            \<longrightarrow> prediction (fst (fetchPrediction fetch data s0)) = Some (Num r)
                \<and> error (fst (fetchPrediction fetch data s0)) = None)
       \<and> (\<not> ok response
            \<longrightarrow> prediction (fst (fetchPrediction fetch data s0)) = None
                \<and> error (fst (fetchPrediction fetch data s0))
                    = Some (ApiRequestFailed (status response) (statusText response)))
       \<and> (ok response
            \<and> \<not> (\<exists>ps r. jsonBody response = Some (JObject ps)
                      \<and> map_of ps (str ''predicted_kwh_month'') = Some (JNumber (Num r)))
            \<longrightarrow> prediction (fst (fetchPrediction fetch data s0)) = None
                \<and> error (fst (fetchPrediction fetch data s0)) \<noteq> None)"
proof -
  let ?request = "\<lparr>url = apiUrl, httpMethod = str ''POST'', contentType = str ''application/json'',
             body = JSON_stringify [(str ''latitude'', latitude data),
                                    (str ''longitude'', longitude data),
                                    (str ''acres'', acres data)]\<rparr>"
  from req have valid: "\<not> (falsy (acres data) \<or> lessEqualZero (toNumber (acres data)))"
    by (auto simp: fetchPrediction_def Let_def)
  then obtain r where "acres data = Some (Num r)" "0 < r"
    unfolding acres_guard_cases by blast
  then have "snd (fetchPrediction fetch data s0) = [?request]"
    by (rule valid_acres_one_request)
  with req have "request = ?request" by simp
  with resp have f: "fetch ?request = Responded response" by simp
  show ?thesis
  proof (cases "ok response")
    case False
    then show ?thesis using valid f by (simp add: fetchPrediction_def Let_def)
  next
    case True
    show ?thesis
    proof (cases "jsonBody response")
      case None
      then show ?thesis using True valid f by (simp add: fetchPrediction_def Let_def)
    next
      case (Some result)
      show ?thesis
      proof (cases "\<exists>ps r. result = JObject ps
                \<and> map_of ps (str ''predicted_kwh_month'') = Some (JNumber (Num r))")
        case True
        then obtain ps r where pr: "result = JObject ps"
          "map_of ps (str ''predicted_kwh_month'') = Some (JNumber (Num r))" by blast
        then have "predictedValue result = Some (Num r)"
          unfolding predictedValue_Some_iff by blast
        then show ?thesis using pr \<open>ok response\<close> Some valid f
          by (simp add: fetchPrediction_def Let_def)
      next
        case False
        then have "predictedValue result = None"
          unfolding predictedValue_None_iff .
        then have st: "prediction (fst (fetchPrediction fetch data s0)) = None
            \<and> error (fst (fetchPrediction fetch data s0)) = Some InvalidPredictionFormat"
          using \<open>ok response\<close> Some valid f by (simp add: fetchPrediction_def Let_def)
        from False Some have "\<not> (\<exists>ps r. jsonBody response = Some (JObject ps)
              \<and> map_of ps (str ''predicted_kwh_month'') = Some (JNumber (Num r)))"
          by auto
        with st \<open>ok response\<close> show ?thesis by auto
      qed
    qed
  qed
qed

theorem response_accepted_only_when_valid_witness:
  "prediction (fst (fetchPrediction
      (respondWith (jsonResponse 200 (JObject [(str ''predicted_kwh_month'', JNumber (Num 3040))])))
      sampleData initialState)) = Some (Num 3040)
   \<and> prediction (fst (fetchPrediction
      (respondWith (jsonResponse 500 (JObject [(str ''predicted_kwh_month'', JNumber (Num 3040))])))
      sampleData initialState)) = None
   \<and> error (fst (fetchPrediction
      (respondWith (jsonResponse 500 (JObject [(str ''predicted_kwh_month'', JNumber (Num 3040))])))
      sampleData initialState)) = Some (ApiRequestFailed 500 [])
   \<and> prediction (fst (fetchPrediction
      (respondWith (jsonResponse 200 (JObject [(str ''predicted_kwh_month'', JString (str ''3040''))])))
      sampleData initialState)) = None
   \<and> error (fst (fetchPrediction
      (respondWith (jsonResponse 200 (JObject [(str ''predicted_kwh_month'', JString (str ''3040''))])))
      sampleData initialState)) \<noteq> None"
proof -
  have r: "respondWith response request = Responded response" for response request
    by (simp add: respondWith_def)
  have "ok (jsonResponse 200 b)" "\<not> ok (jsonResponse 500 b)"
       "jsonBody (jsonResponse 200 b) = Some b" "status (jsonResponse 500 b) = 500"
       "statusText (jsonResponse 500 b) = []" for b
    by (simp_all add: ok_def jsonResponse_def)
  moreover have "map_of [(str ''predicted_kwh_month'', v)] (str ''predicted_kwh_month'') = Some v" for v :: json
    by simp
  ultimately show ?thesis
    using
      response_accepted_only_when_valid
        [where response = "jsonResponse 200 (JObject [(str ''predicted_kwh_month'', JNumber (Num 3040))])"
           and fetch = "respondWith (jsonResponse 200 (JObject [(str ''predicted_kwh_month'', JNumber (Num 3040))]))"
           and data = sampleData and ?s0.0 = initialState, OF sample_request r]
      response_accepted_only_when_valid
        [where response = "jsonResponse 500 (JObject [(str ''predicted_kwh_month'', JNumber (Num 3040))])"
           and fetch = "respondWith (jsonResponse 500 (JObject [(str ''predicted_kwh_month'', JNumber (Num 3040))]))"
           and data = sampleData and ?s0.0 = initialState, OF sample_request r]
      response_accepted_only_when_valid
        [where response = "jsonResponse 200 (JObject [(str ''predicted_kwh_month'', JString (str ''3040''))])"
           and fetch = "respondWith (jsonResponse 200 (JObject [(str ''predicted_kwh_month'', JString (str ''3040''))]))"
           and data = sampleData and ?s0.0 = initialState, OF sample_request r]
    by simp
qed

section \<open>Properties of the form\<close>

lemma greaterThanZero_iff: "greaterThanZero x \<longleftrightarrow> (\<exists>r. x = Num r \<and> 0 < r)"
  by (cases x) simp_all

text \<open>
  Claim C5. \<open>handleSubmit\<close> calls \<open>onSubmit\<close>, with the form data unchanged, exactly when
  acres and consumption are numbers greater than zero and the trimmed location is not
  empty; in every other case it raises the alert and \<open>onSubmit\<close> is not called. The submit
  button is disabled in exactly those other cases.
\<close>

theorem form_submits_only_valid_input:
  "(handleSubmit formData = OnSubmit d \<longleftrightarrow>
      d = formData
      \<and> (\<exists>a. FormInputData.acres formData = Num a \<and> 0 < a)
      \<and> (\<exists>c. FormInputData.consumption formData = Num c \<and> 0 < c)
      \<and> trim (FormInputData.location formData) \<noteq> [])
   \<and> (handleSubmit formData = Alert \<longleftrightarrow>
      \<not> ((\<exists>a. FormInputData.acres formData = Num a \<and> 0 < a)
         \<and> (\<exists>c. FormInputData.consumption formData = Num c \<and> 0 < c)
         \<and> trim (FormInputData.location formData) \<noteq> []))
   \<and> (submitDisabled formData \<longleftrightarrow> handleSubmit formData = Alert)"
  unfolding handleSubmit_def submitDisabled_def greaterThanZero_iff by auto

theorem form_submits_only_valid_input_witness:
  "handleSubmit \<lparr>FormInputData.location = str ''Pune'', FormInputData.acres = Num 5,
                 FormInputData.consumption = Num 500\<rparr>
     = OnSubmit \<lparr>FormInputData.location = str ''Pune'', FormInputData.acres = Num 5,
                 FormInputData.consumption = Num 500\<rparr>
   \<and> handleSubmit \<lparr>FormInputData.location = str ''Pune'', FormInputData.acres = Num 0,
                   FormInputData.consumption = Num 500\<rparr> = Alert
   \<and> handleSubmit \<lparr>FormInputData.location = str ''   '', FormInputData.acres = Num 5,
                   FormInputData.consumption = Num 500\<rparr> = Alert"
proof -
  have t1: "trim (str ''Pune'') \<noteq> []" by code_simp
  have t2: "trim (str ''   '') = []" by code_simp
  show ?thesis
    using form_submits_only_valid_input
        [of "\<lparr>FormInputData.location = str ''Pune'', FormInputData.acres = Num 5,
              FormInputData.consumption = Num 500\<rparr>"
            "\<lparr>FormInputData.location = str ''Pune'', FormInputData.acres = Num 5,
              FormInputData.consumption = Num 500\<rparr>"]
      form_submits_only_valid_input
        [of "\<lparr>FormInputData.location = str ''Pune'', FormInputData.acres = Num 0,
              FormInputData.consumption = Num 500\<rparr>"]
      form_submits_only_valid_input
        [of "\<lparr>FormInputData.location = str ''   '', FormInputData.acres = Num 5,
              FormInputData.consumption = Num 500\<rparr>"]
      t1 t2
    by simp
qed

section \<open>Properties of the coverage percentage\<close>

lemma fetched_prediction_is_number:
  "prediction (fst (fetchPrediction fetch data s0)) \<noteq> Some NaN"
proof -
  have n: "predictedValue result \<noteq> Some NaN" for result
    unfolding predictedValue_Some_iff by simp
  show ?thesis
    using n by (auto simp: fetchPrediction_def Let_def split: fetchOutcome.splits option.splits)
qed

subsection \<open>The rounding\<close>

text \<open>
  \<open>binaryExponent\<close> is the binary exponent of its argument, and a finite result of
  \<open>binary64\<close> is a multiple of the unit in the last place that lies within half a unit
  of the exact value.
\<close>

lemma bitlen_real_bounds:
  assumes "0 < (n::int)"
  shows "(2::real) powi (bitlen n - 1) \<le> of_int n" "of_int n < (2::real) powi bitlen n"
proof -
  from bitlen_bounds[OF assms]
  have a: "2 ^ nat (bitlen n - 1) \<le> n" and b: "n < 2 ^ nat (bitlen n)" by auto
  have pos: "0 < bitlen n"
  proof (rule ccontr)
    assume "\<not> 0 < bitlen n"
    then have "nat (bitlen n) = 0" by simp
    with b have "n < 1" by simp
    with assms show False by simp
  qed
  have "(2::real) powi (bitlen n - 1) = 2 ^ nat (bitlen n - 1)"
    using pos by (simp add: power_int_def)
  also have "\<dots> = of_int (2 ^ nat (bitlen n - 1))" by simp
  also have "\<dots> \<le> of_int n" using a by (simp only: of_int_le_iff)
  finally show "(2::real) powi (bitlen n - 1) \<le> of_int n" .
  have "of_int n < (of_int (2 ^ nat (bitlen n)) :: real)" using b by (simp only: of_int_less_iff)
  also have "\<dots> = 2 ^ nat (bitlen n)" by simp
  also have "\<dots> = (2::real) powi bitlen n"
    using pos by (simp add: power_int_def)
  finally show "of_int n < (2::real) powi bitlen n" .
qed

lemma binaryExponent_bounds:
  assumes "r \<noteq> 0"
  shows "2 powi binaryExponent r \<le> \<bar>r\<bar> \<and> \<bar>r\<bar> < 2 powi (binaryExponent r + 1)"
proof (cases "1 \<le> \<bar>r\<bar>")
  case True
  let ?n = "\<lfloor>\<bar>r\<bar>\<rfloor>"
  have n: "0 < ?n" using True by simp
  have e: "binaryExponent r = bitlen ?n - 1" using True by (simp add: binaryExponent_def)
  have "(2::real) powi (bitlen ?n - 1) \<le> of_int ?n" using n by (rule bitlen_real_bounds)
  also have "\<dots> \<le> \<bar>r\<bar>" by simp
  finally have lo: "(2::real) powi (bitlen ?n - 1) \<le> \<bar>r\<bar>" .
  have "?n + 1 \<le> 2 ^ nat (bitlen ?n)"
    using bitlen_bounds[OF n] by simp
  then have "(of_int (?n + 1) :: real) \<le> of_int (2 ^ nat (bitlen ?n))"
    by (simp only: of_int_le_iff)
  moreover have "\<bar>r\<bar> < of_int (?n + 1)" by linarith
  moreover have "(of_int (2 ^ nat (bitlen ?n)) :: real) = 2 powi bitlen ?n"
    using bitlen_nonneg[of ?n] by (simp add: power_int_def)
  ultimately have "\<bar>r\<bar> < 2 powi bitlen ?n" by linarith
  with lo e show ?thesis by simp
next
  case False
  let ?y = "1 / \<bar>r\<bar>"
  let ?m = "\<lceil>?y\<rceil> - 1"
  have r: "0 < \<bar>r\<bar>" "\<bar>r\<bar> < 1" using assms False by auto
  then have y: "1 < ?y" by simp
  then have m: "0 < ?m" by linarith
  have e: "binaryExponent r = - bitlen ?m" using False by (simp add: binaryExponent_def)
  have my: "of_int ?m < ?y" "?y \<le> of_int ?m + 1" by linarith+
  have b1: "(2::real) powi (bitlen ?m - 1) \<le> of_int ?m" and b2: "of_int ?m < (2::real) powi bitlen ?m"
    using m by (rule bitlen_real_bounds)+
  have "?m + 1 \<le> 2 ^ nat (bitlen ?m)"
    using bitlen_bounds[OF m] by simp
  then have "(of_int (?m + 1) :: real) \<le> of_int (2 ^ nat (bitlen ?m))"
    by (simp only: of_int_le_iff)
  moreover have "(of_int (2 ^ nat (bitlen ?m)) :: real) = 2 powi bitlen ?m"
    using bitlen_nonneg[of ?m] by (simp add: power_int_def)
  moreover have "?y \<le> of_int (?m + 1)" by simp
  ultimately have up: "?y \<le> 2 powi bitlen ?m" by linarith
  have lo: "2 powi (bitlen ?m - 1) < ?y" using b1 my by linarith
  have p1: "(0::real) < 2 powi bitlen ?m" and p2: "(0::real) < 2 powi (bitlen ?m - 1)" by simp_all
  from up r p1 have "1 / (2 powi bitlen ?m) \<le> \<bar>r\<bar>"
    by (simp add: field_simps)
  then have A: "2 powi (- bitlen ?m) \<le> \<bar>r\<bar>"
    by (simp only: power_int_minus inverse_eq_divide)
  from lo r p2 have "\<bar>r\<bar> < 1 / (2 powi (bitlen ?m - 1))"
    by (simp add: field_simps)
  moreover have "(2::real) powi (- bitlen ?m + 1) = inverse (2 powi (bitlen ?m - 1))"
    using power_int_minus[of "2::real" "bitlen ?m - 1"] by simp
  ultimately have B: "\<bar>r\<bar> < 2 powi (- bitlen ?m + 1)"
    by (simp only: inverse_eq_divide)
  from A B e show ?thesis by simp
qed

lemma roundTiesToEven_nearest: "\<bar>of_int (roundTiesToEven x) - x\<bar> \<le> 1 / 2"
  unfolding roundTiesToEven_def Let_def by (auto; linarith)

lemma binary64_nearest:
  assumes "binary64 r = Finite v" and "r \<noteq> 0"
  shows "\<exists>m. v = of_int m * 2 powi (max (binaryExponent r) (- 1022) - 52)
           \<and> \<bar>v - r\<bar> \<le> 2 powi (max (binaryExponent r) (- 1022) - 52) / 2"
proof -
  define u :: real where "u = 2 powi (max (binaryExponent r) (- 1022) - 52)"
  define m where "m = roundTiesToEven (r / u)"
  have u: "0 < u" by (simp add: u_def)
  from assms have v: "v = of_int m * u"
    by (auto simp: binary64_def Let_def signedInfinity_def u_def m_def split: if_splits)
  have "\<bar>of_int m - r / u\<bar> \<le> 1 / 2"
    unfolding m_def by (rule roundTiesToEven_nearest)
  then have "\<bar>of_int m - r / u\<bar> * u \<le> 1 / 2 * u"
    using u by (simp only: mult_le_cancel_right_pos)
  moreover have "\<bar>of_int m - r / u\<bar> * u = \<bar>of_int m * u - r\<bar>"
    using u by (simp add: abs_mult[symmetric, of _ u, simplified] field_simps abs_mult_pos)
  ultimately have "\<bar>v - r\<bar> \<le> u / 2" using v by simp
  with v show ?thesis unfolding u_def by blast
qed

subsection \<open>The expression of the page\<close>

lemma binary64_not_NaN: "binary64 r \<noteq> NotANumber"
  by (simp add: binary64_def Let_def signedInfinity_def)

lemma multiply_100_not_NaN: "q \<noteq> NotANumber \<Longrightarrow> multiply q (Finite 100) \<noteq> NotANumber"
  by (cases q) (simp_all add: binary64_not_NaN signedInfinity_def)

lemma clamp_range:
  assumes "x \<noteq> NotANumber"
  shows "\<exists>p. Math_max (Finite 0) (Math_min (Finite 100) (Math_round x)) = Finite p
             \<and> 0 \<le> p \<and> p \<le> 100"
  using assms by (cases x) simp_all

lemma clamp_finite:
  "Math_max (Finite 0) (Math_min (Finite 100) (Math_round (Finite b)))
     = Finite (max 0 (min 100 (of_int \<lfloor>b + 1 / 2\<rfloor>)))"
  by (simp add: min.commute)

lemma stored_prediction_cases:
  assumes "prediction st \<noteq> Some NaN"
  obtains v where "prediction st = Some (Num v)" "actualOutput st = Num v"
  | "prediction st = None" "actualOutput st = Num 0"
proof (cases "prediction st")
  case None
  then show ?thesis using that(2) by (simp add: actualOutput_def)
next
  case (Some x)
  with assms obtain v where "x = Num v" by (cases x) auto
  with Some show ?thesis using that(1) by (simp add: actualOutput_def)
qed

text \<open>
  Claim C10. After \<open>fetchPrediction\<close> the coverage percentage has a value, so no division
  by zero is performed, and the value is a number between 0 and 100. When consumption is
  greater than zero it is the quotient of the predicted output \<open>v\<close> (0 while no prediction
  is stored) by the consumption, times 100, each operation rounded as a double, then
  rounded to an integer and clamped into that range; when consumption is not greater than
  zero it is 0.
\<close>

theorem coverage_guarded_and_clamped:
  "\<exists>v p. (prediction (fst (fetchPrediction fetch data s0)) = Some (Num v)
            \<or> prediction (fst (fetchPrediction fetch data s0)) = None \<and> v = 0)
     \<and> coveragePercent (fst (fetchPrediction fetch data s0)) data = Some (Finite p)
     \<and> 0 \<le> p \<and> p \<le> 100
     \<and> (\<forall>c. consumption data = Some (Num c) \<and> 0 < c
            \<longrightarrow> Finite p = Math_max (Finite 0) (Math_min (Finite 100)
                              (Math_round (multiply (binary64 (v / c)) (Finite 100))))
                \<and> (\<forall>a b. binary64 (v / c) = Finite a \<and> binary64 (a * 100) = Finite b
                      \<longrightarrow> p = max 0 (min 100 (of_int \<lfloor>b + 1 / 2\<rfloor>))))
     \<and> (\<not> (\<exists>c. consumption data = Some (Num c) \<and> 0 < c) \<longrightarrow> p = 0)"
proof -
  let ?st = "fst (fetchPrediction fetch data s0)"
  have "prediction ?st \<noteq> Some NaN" by (rule fetched_prediction_is_number)
  then obtain v where tie: "prediction ?st = Some (Num v) \<or> prediction ?st = None \<and> v = 0"
    and out: "actualOutput ?st = Num v"
    by (rule stored_prediction_cases) auto
  show ?thesis
  proof (cases "\<exists>c. consumption data = Some (Num c) \<and> 0 < c")
    case False
    then have "\<not> greaterThanZero (toNumber (consumption data))"
      by (cases "consumption data"; cases "the (consumption data)") auto
    then have "coveragePercent ?st data = Some (Finite 0)"
      by (simp add: coveragePercent_def)
    with tie False show ?thesis by auto
  next
    case True
    then obtain c where c: "consumption data = Some (Num c)" "0 < c" by blast
    let ?x = "multiply (binary64 (v / c)) (Finite 100)"
    have "?x \<noteq> NotANumber"
      by (rule multiply_100_not_NaN) (rule binary64_not_NaN)
    then obtain p where p: "Math_max (Finite 0) (Math_min (Finite 100) (Math_round ?x)) = Finite p"
      and range: "0 \<le> p" "p \<le> 100"
      using clamp_range by blast
    have cov: "coveragePercent ?st data = Some (Finite p)"
      using c out p by (simp add: coveragePercent_def)
    have fin: "p = max 0 (min 100 (of_int \<lfloor>b + 1 / 2\<rfloor>))"
      if "binary64 (v / c) = Finite a" "binary64 (a * 100) = Finite b" for a b
    proof -
      from that have "?x = Finite b" by simp
      with p show ?thesis by (simp only: clamp_finite double.inject)
    qed
    from tie cov range p fin c True show ?thesis by auto
  qed
qed

theorem coverage_guarded_and_clamped_witness:
  "coveragePercent (fst (fetchPrediction
      (respondWith (jsonResponse 200 (JObject [(str ''predicted_kwh_month'', JNumber (Num 29))])))
      (sampleData\<lparr>consumption := Some (Num 200)\<rparr>) initialState))
      (sampleData\<lparr>consumption := Some (Num 200)\<rparr>) = Some (Finite 14)
   \<and> coveragePercent (fst (fetchPrediction
      (respondWith (jsonResponse 200 (JObject [(str ''predicted_kwh_month'', JNumber (Num 3040))])))
      sampleData initialState)) sampleData = Some (Finite 100)
   \<and> coveragePercent (fst (fetchPrediction
      (respondWith (jsonResponse 200 (JObject [(str ''predicted_kwh_month'', JNumber (Num 29))])))
      (sampleData\<lparr>consumption := Some (Num 0)\<rparr>) initialState))
      (sampleData\<lparr>consumption := Some (Num 0)\<rparr>) = Some (Finite 0)"
proof -
  have stored: "prediction (fst (fetchPrediction
      (respondWith (jsonResponse 200 (JObject [(str ''predicted_kwh_month'', JNumber (Num x))])))
      d initialState)) = Some (Num x)"
    if "acres d = Some (Num 5)" for d x
    using that
    by (simp add: fetchPrediction_def Let_def respondWith_def jsonResponse_def ok_def
        predictedValue_def)
  have e1: "Math_max (Finite 0) (Math_min (Finite 100)
              (Math_round (multiply (binary64 (29 / 200)) (Finite 100)))) = Finite 14"
    by code_simp
  have e2: "Math_max (Finite 0) (Math_min (Finite 100)
              (Math_round (multiply (binary64 (3040 / 500)) (Finite 100)))) = Finite 100"
    by code_simp
  from coverage_guarded_and_clamped
         [of "respondWith (jsonResponse 200 (JObject [(str ''predicted_kwh_month'', JNumber (Num 29))]))"
             "sampleData\<lparr>consumption := Some (Num 200)\<rparr>" initialState]
       stored[of "sampleData\<lparr>consumption := Some (Num 200)\<rparr>" 29] e1
  have 1: "coveragePercent (fst (fetchPrediction
      (respondWith (jsonResponse 200 (JObject [(str ''predicted_kwh_month'', JNumber (Num 29))])))
      (sampleData\<lparr>consumption := Some (Num 200)\<rparr>) initialState))
      (sampleData\<lparr>consumption := Some (Num 200)\<rparr>) = Some (Finite 14)"
    by (auto simp: sampleData_def)
  from coverage_guarded_and_clamped
         [of "respondWith (jsonResponse 200 (JObject [(str ''predicted_kwh_month'', JNumber (Num 3040))]))"
             sampleData initialState]
       stored[of sampleData 3040] e2
  have 2: "coveragePercent (fst (fetchPrediction
      (respondWith (jsonResponse 200 (JObject [(str ''predicted_kwh_month'', JNumber (Num 3040))])))
      sampleData initialState)) sampleData = Some (Finite 100)"
    by (auto simp: sampleData_def)
  from coverage_guarded_and_clamped
         [of "respondWith (jsonResponse 200 (JObject [(str ''predicted_kwh_month'', JNumber (Num 29))]))"
             "sampleData\<lparr>consumption := Some (Num 0)\<rparr>" initialState]
  have 3: "coveragePercent (fst (fetchPrediction
      (respondWith (jsonResponse 200 (JObject [(str ''predicted_kwh_month'', JNumber (Num 29))])))
      (sampleData\<lparr>consumption := Some (Num 0)\<rparr>) initialState))
      (sampleData\<lparr>consumption := Some (Num 0)\<rparr>) = Some (Finite 0)"
    by auto
  from 1 2 3 show ?thesis by blast
qed

section \<open>Properties of the prediction service\<close>

lemma sum_list_constant:
  "(\<forall>y \<in> set ys. f y = (k::real)) \<Longrightarrow> sum_list (map f ys) = real (length ys) * k"
  by (induction ys) (simp_all add: algebra_simps)

text \<open>
  Claim C6. For a non-empty sequence of daily yields and positive acres, the monthly
  estimate is the mean of the yields per acre times acres times 30.4; a constant yield of
  20 per acre with 5 acres gives 3040.
\<close>

theorem monthly_estimate_is_scaled_mean:
  assumes "daily_yields \<noteq> []" and "0 < a"
  shows "estimate daily_yields a =
           Inr \<lparr>predicted_kwh_month =
                  (sum_list (map kwh_per_acre daily_yields) / real (length daily_yields)) * a * 30.4\<rparr>
       \<and> ((\<forall>y \<in> set daily_yields. kwh_per_acre y = 20) \<and> a = 5
            \<longrightarrow> estimate daily_yields a = Inr \<lparr>predicted_kwh_month = 3040\<rparr>)"
proof -
  have "sum_list (map kwh_per_acre daily_yields) / real (length daily_yields) = 20"
    if c: "\<forall>y \<in> set daily_yields. kwh_per_acre y = 20"
  proof -
    have "sum_list (map kwh_per_acre daily_yields) = real (length daily_yields) * 20"
      using c by (rule sum_list_constant)
    moreover have "real (length daily_yields) \<noteq> 0"
      using assms(1) by simp
    ultimately show ?thesis by simp
  qed
  then show ?thesis using assms by (auto simp: estimate_def Let_def)
qed

theorem monthly_estimate_is_scaled_mean_witness:
  "estimate (map (\<lambda>d. \<lparr>yieldDate = d, kwh_per_acre = 20\<rparr>) [150, 151, 152, 153, 154, 155, 156]) 5
     = Inr \<lparr>predicted_kwh_month = 3040\<rparr>
   \<and> estimate [\<lparr>yieldDate = 150, kwh_per_acre = 18\<rparr>, \<lparr>yieldDate = 151, kwh_per_acre = 22\<rparr>,
               \<lparr>yieldDate = 152, kwh_per_acre = 26\<rparr>] 2
     = Inr \<lparr>predicted_kwh_month = 1337.6\<rparr>"
  using monthly_estimate_is_scaled_mean
      [of "map (\<lambda>d. \<lparr>yieldDate = d, kwh_per_acre = 20\<rparr>) [150, 151, 152, 153, 154, 155, 156]" 5]
    monthly_estimate_is_scaled_mean
      [of "[\<lparr>yieldDate = 150, kwh_per_acre = 18\<rparr>, \<lparr>yieldDate = 151, kwh_per_acre = 22\<rparr>,
            \<lparr>yieldDate = 152, kwh_per_acre = 26\<rparr>]" 2]
  by simp

text \<open>
  Claim C7. On the empty sequence \<open>aggregate\<close> and \<open>estimate\<close> both fail with
  \<open>EmptyForecastError\<close>, and \<open>estimate\<close> produces no estimate.
\<close>

theorem empty_input_is_an_error:
  "aggregate [] = Inl EmptyForecastError
   \<and> estimate [] a = Inl EmptyForecastError
   \<and> (\<forall>m. estimate [] a \<noteq> Inr m)"
  by (simp add: aggregate_def estimate_def)

theorem empty_input_is_an_error_witness:
  "aggregate [] = Inl EmptyForecastError \<and> estimate [] 5 = Inl EmptyForecastError"
  using empty_input_is_an_error[of 5] by simp

end
